theory Spec2Isabelle
  imports Main
begin

section \<open>Data model of \<open>src/index.js\<close>\<close>

text \<open>
  The Mongoose documents of \<open>roomSchema\<close> and \<open>remarkSchema\<close>.  The two defaults of
  \<open>roomSchema\<close> (\<open>code: ""\<close>, \<open>language: "javascript"\<close>) are applied by \<open>new_Room\<close>;
  the defaults of \<open>remarkSchema\<close> (\<open>createdAt: Date.now\<close>, \<open>resolved: false\<close>) by
  \<open>new_Remark\<close>, which takes the clock reading as an argument.  The author fields of a
  remark are filled from the closure variables \<open>currentUser\<close> and \<open>currentRole\<close>, which
  are \<open>null\<close> before the first join: they are options here.  Payload fields are strings
  (\<open>line\<close> a number), as the wire contract has them.
\<close>

record room =
  roomId :: string
  users :: "string list"
  code :: string
  language :: string

record remark =
  remark_roomId :: string
  userName :: "string option"
  role :: "string option"
  remark_text :: string
  line :: int
  createdAt :: int
  resolved :: bool

definition new_Room :: "string \<Rightarrow> string list \<Rightarrow> room" where
  "new_Room rid us = \<lparr>roomId = rid, users = us, code = [], language = ''javascript''\<rparr>"

definition new_Remark ::
  "int \<Rightarrow> string \<Rightarrow> string option \<Rightarrow> string option \<Rightarrow> string \<Rightarrow> int \<Rightarrow> remark" where
  "new_Remark now rid u r msg ln =
     \<lparr>remark_roomId = rid, userName = u, role = r, remark_text = msg, line = ln,
      createdAt = now, resolved = False\<rparr>"

text \<open>
  The three closure variables of one connection (\<open>let currentRoom = null\<close> and so on),
  \<open>None\<close> for \<open>null\<close>.
\<close>

record session =
  currentRoom :: "string option"
  currentUser :: "string option"
  currentRole :: "string option"

definition null_session :: session where
  "null_session = \<lparr>currentRoom = None, currentUser = None, currentRole = None\<rparr>"

text \<open>
  JavaScript truthiness of a value that is \<open>null\<close> or a string: \<open>null\<close> and the empty
  string are falsy.
\<close>

fun truthy :: "string option \<Rightarrow> bool" where
  "truthy None = False"
| "truthy (Some s) = (s \<noteq> [])"

text \<open>
  What a handler sends.  \<open>Io_to r\<close> is \<open>io.to(r).emit\<close> (every socket in the socket.io
  room \<open>r\<close>), \<open>Socket_to s r\<close> is \<open>socket.to(r).emit\<close> on the socket \<open>s\<close> (every socket
  in \<open>r\<close> except \<open>s\<close>), \<open>Socket_emit s\<close> is \<open>socket.emit\<close> (the socket \<open>s\<close> alone).
\<close>

type_synonym sid = string

datatype target = Io_to string | Socket_to sid string | Socket_emit sid

datatype message =
    UserJoined "string list"
  | CodeUpdate string
  | LanguageUpdate string
  | RemarkUpdate remark

type_synonym emission = "target \<times> message"

text \<open>
  The state the handlers share: the \<open>Room\<close> collection (\<open>roomId\<close> is a unique key, so a
  map from it), the \<open>Remark\<close> collection in insertion order, the closure variables of
  every connection, and the socket.io rooms every socket has joined
  (\<open>socket.join\<close>, \<open>socket.leave\<close>).
\<close>

record world =
  rooms :: "string \<rightharpoonup> room"
  remarks :: "remark list"
  sessions :: "sid \<Rightarrow> session"
  socket_rooms :: "sid \<Rightarrow> string set"

text \<open>
  Who a target reaches, from the socket.io rooms of the moment.
\<close>

fun receives :: "world \<Rightarrow> target \<Rightarrow> sid \<Rightarrow> bool" where
  "receives w (Io_to r) s = (r \<in> socket_rooms w s)"
| "receives w (Socket_to s0 r) s = (r \<in> socket_rooms w s \<and> s \<noteq> s0)"
| "receives w (Socket_emit s0) s = (s = s0)"

text \<open>
  Every store call is awaited and none is inside a \<open>try\<close>: a call that rejects ends the
  handler at that point, with what was done before it kept and nothing after it done.
  Which calls reject is an input: \<open>f op\<close> says that the call \<open>op\<close> of this handler run
  rejects.  Each handler makes each kind of call at most once.
\<close>

datatype db_op = FindOne | SaveRoom | SaveRemark | FindOneAndUpdate

type_synonym faults = "db_op \<Rightarrow> bool"

definition no_faults :: faults where
  "no_faults = (\<lambda>_. False)"

datatype outcome = Resolved | Rejected db_op

record result =
  outcome :: outcome
  emitted :: "emission list"
  after :: world

section \<open>The socket handlers\<close>

text \<open>
  Each handler is first given as one step, from the event to the last emission, as it
  runs when no other handler runs between its \<open>await\<close>s.  The join handler is given
  a second time below, split at its \<open>await\<close>s, so that two joins can interleave.
\<close>

text \<open>\<open>io.on("connection")\<close>: fresh closure variables for the new socket.\<close>

definition on_connection :: "sid \<Rightarrow> world \<Rightarrow> world" where
  "on_connection s w = w\<lparr>sessions := (sessions w)(s := null_session)\<rparr>"

text \<open>\<open>socket.on("join")\<close>.\<close>

definition on_join :: "faults \<Rightarrow> sid \<Rightarrow> string \<Rightarrow> string \<Rightarrow> string \<Rightarrow> world \<Rightarrow> result" where
  "on_join f s rid uname rl w =
     (let w1 = w\<lparr>sessions := (sessions w)
                    (s := \<lparr>currentRoom = Some rid, currentUser = Some uname,
                           currentRole = Some rl\<rparr>),
                 socket_rooms := (socket_rooms w)(s := insert rid (socket_rooms w s))\<rparr>
      in if f FindOne then \<lparr>outcome = Rejected FindOne, emitted = [], after = w1\<rparr>
         else
           let room = (case rooms w1 rid of
                         None \<Rightarrow> new_Room rid [uname]
                       | Some r \<Rightarrow>
                           if uname \<notin> set (users r)
                           then r\<lparr>users := users r @ [uname]\<rparr> else r)
           in if f SaveRoom then \<lparr>outcome = Rejected SaveRoom, emitted = [], after = w1\<rparr>
              else \<lparr>outcome = Resolved,
                    emitted = [(Io_to rid, UserJoined (users room)),
                               (Socket_emit s, CodeUpdate (code room)),
                               (Socket_emit s, LanguageUpdate (language room))],
                    after = w1\<lparr>rooms := (rooms w1)(rid \<mapsto> room)\<rparr>\<rparr>)"

text \<open>The role test shared by \<open>languageChange\<close> and \<open>codeChange\<close>.\<close>

definition may_edit :: "session \<Rightarrow> bool" where
  "may_edit ses =
     (currentRole ses = Some ''Developer'' \<or> currentRole ses = Some ''Admin'')"

text \<open>\<open>socket.on("languageChange")\<close>.\<close>

definition on_languageChange :: "faults \<Rightarrow> sid \<Rightarrow> string \<Rightarrow> string \<Rightarrow> world \<Rightarrow> result" where
  "on_languageChange f s rid lang w =
     (if may_edit (sessions w s) then
        if f FindOne then \<lparr>outcome = Rejected FindOne, emitted = [], after = w\<rparr>
        else
          (case rooms w rid of
             None \<Rightarrow> \<lparr>outcome = Resolved, emitted = [], after = w\<rparr>
           | Some room \<Rightarrow>
               if f SaveRoom then \<lparr>outcome = Rejected SaveRoom, emitted = [], after = w\<rparr>
               else \<lparr>outcome = Resolved,
                     emitted = [(Socket_to s rid, LanguageUpdate lang)],
                     after = w\<lparr>rooms := (rooms w)(rid \<mapsto> room\<lparr>language := lang\<rparr>)\<rparr>\<rparr>)
      else \<lparr>outcome = Resolved, emitted = [], after = w\<rparr>)"

text \<open>\<open>socket.on("codeChange")\<close>.\<close>

definition on_codeChange :: "faults \<Rightarrow> sid \<Rightarrow> string \<Rightarrow> string \<Rightarrow> world \<Rightarrow> result" where
  "on_codeChange f s rid c w =
     (if may_edit (sessions w s) then
        if f FindOne then \<lparr>outcome = Rejected FindOne, emitted = [], after = w\<rparr>
        else
          (case rooms w rid of
             None \<Rightarrow> \<lparr>outcome = Resolved, emitted = [], after = w\<rparr>
           | Some room \<Rightarrow>
               if f SaveRoom then \<lparr>outcome = Rejected SaveRoom, emitted = [], after = w\<rparr>
               else \<lparr>outcome = Resolved,
                     emitted = [(Socket_to s rid, CodeUpdate c)],
                     after = w\<lparr>rooms := (rooms w)(rid \<mapsto> room\<lparr>code := c\<rparr>)\<rparr>\<rparr>)
      else \<lparr>outcome = Resolved, emitted = [], after = w\<rparr>)"

text \<open>\<open>socket.on("remark:add")\<close>; \<open>now\<close> is what \<open>Date.now\<close> returns.\<close>

definition on_remark_add ::
  "faults \<Rightarrow> int \<Rightarrow> sid \<Rightarrow> string \<Rightarrow> string \<Rightarrow> int \<Rightarrow> world \<Rightarrow> result" where
  "on_remark_add f now s rid msg ln w =
     (if currentRole (sessions w s) = Some ''Tester'' then
        let remark = new_Remark now rid (currentUser (sessions w s))
                       (currentRole (sessions w s)) msg ln
        in if f SaveRemark then \<lparr>outcome = Rejected SaveRemark, emitted = [], after = w\<rparr>
           else \<lparr>outcome = Resolved,
                 emitted = [(Io_to rid, RemarkUpdate remark)],
                 after = w\<lparr>remarks := remarks w @ [remark]\<rparr>\<rparr>
      else \<lparr>outcome = Resolved, emitted = [], after = w\<rparr>)"

text \<open>
  \<open>handleUserExit\<close>.  \<open>findOneAndUpdate\<close> with \<open>$pull\<close> removes every occurrence of the
  name from \<open>users\<close> and, with \<open>new: true\<close>, returns the updated document, or \<open>null\<close>
  when no room has that \<open>roomId\<close> (nothing is inserted).
\<close>

definition handleUserExit :: "faults \<Rightarrow> sid \<Rightarrow> world \<Rightarrow> result" where
  "handleUserExit f s w =
     (if truthy (currentRoom (sessions w s)) \<and> truthy (currentUser (sessions w s)) then
        (case (currentRoom (sessions w s), currentUser (sessions w s)) of
           (Some cr, Some cu) \<Rightarrow>
             if f FindOneAndUpdate
             then \<lparr>outcome = Rejected FindOneAndUpdate, emitted = [], after = w\<rparr>
             else
               let updatedRoom = (case rooms w cr of
                                    None \<Rightarrow> None
                                  | Some r \<Rightarrow> Some (r\<lparr>users := removeAll cu (users r)\<rparr>));
                   w1 = (case updatedRoom of
                           None \<Rightarrow> w
                         | Some r \<Rightarrow> w\<lparr>rooms := (rooms w)(cr \<mapsto> r)\<rparr>)
               in \<lparr>outcome = Resolved,
                   emitted = (case updatedRoom of
                                None \<Rightarrow> []
                              | Some r \<Rightarrow> [(Io_to cr, UserJoined (users r))]),
                   after = w1\<lparr>sessions := (sessions w1)(s := null_session),
                              socket_rooms := (socket_rooms w1)(s := socket_rooms w1 s - {cr})\<rparr>\<rparr>
         | _ \<Rightarrow> \<lparr>outcome = Resolved, emitted = [], after = w\<rparr>)
      else \<lparr>outcome = Resolved, emitted = [], after = w\<rparr>)"

text \<open>
  \<open>socket.on("leaveRoom")\<close> and \<open>socket.on("disconnect")\<close> both await \<open>handleUserExit\<close>
  (the second then logs); the teardown of the transport is socket.io's and is not part
  of the handler.
\<close>

definition on_leaveRoom :: "faults \<Rightarrow> sid \<Rightarrow> world \<Rightarrow> result" where
  "on_leaveRoom f s w = handleUserExit f s w"

definition on_disconnect :: "faults \<Rightarrow> sid \<Rightarrow> world \<Rightarrow> result" where
  "on_disconnect f s w = handleUserExit f s w"

section \<open>Sequences of events\<close>

datatype event =
    Join sid string string string
  | LanguageChange sid string string
  | CodeChange sid string string
  | RemarkAdd sid string string int
  | LeaveRoom sid
  | Disconnect sid

text \<open>One event, with the faults and the clock reading of its handler run.\<close>

fun handle :: "faults \<Rightarrow> int \<Rightarrow> event \<Rightarrow> world \<Rightarrow> result" where
  "handle f now (Join s rid uname rl) w = on_join f s rid uname rl w"
| "handle f now (LanguageChange s rid lang) w = on_languageChange f s rid lang w"
| "handle f now (CodeChange s rid c) w = on_codeChange f s rid c w"
| "handle f now (RemarkAdd s rid msg ln) w = on_remark_add f now s rid msg ln w"
| "handle f now (LeaveRoom s) w = on_leaveRoom f s w"
| "handle f now (Disconnect s) w = on_disconnect f s w"

text \<open>
  A run: the events one after the other, each on the world the one before left (a
  rejected handler leaves the server running), the emissions collected in order.
\<close>

fun run :: "(faults \<times> int \<times> event) list \<Rightarrow> world \<Rightarrow> emission list \<times> world" where
  "run [] w = ([], w)"
| "run ((f, now, e) # es) w =
     (let r = handle f now e w; (out, w') = run es (after r)
      in (emitted r @ out, w'))"

section \<open>The \<open>/compile\<close> route\<close>

text \<open>
  What the execution service answers is an input of the model.  The submission either
  rejects (\<open>fetch\<close> or \<open>json()\<close> throws, with a message) or is a body with an optional
  \<open>token\<close> and an optional \<open>error\<close>.  The \<open>k\<close>-th poll either rejects or is a body whose
  \<open>status\<close> object may be missing (an error body of the service), in which case reading
  \<open>result.status.id\<close> throws a \<open>TypeError\<close>.  The \<open>try\<close> around the whole handler
  catches every one of these and answers 500 with the error's message.
\<close>

record judge_status =
  status_id :: int
  description :: string

record judge_result =
  status :: "judge_status option"
  stdout :: "string option"
  stderr :: "string option"
  memory :: "int option"
  time :: "string option"

datatype js_error = Rejection string | TypeError_status_undefined

datatype submission = SubmitThrows string | SubmitBody "string option" "string option"

datatype poll = PollThrows string | PollBody judge_result

record compile_reply =
  reply_output :: string
  reply_status :: string
  reply_memory :: "int option"
  reply_time :: "string option"

datatype http_response = Json200 compile_reply | Json400 string | Json500 js_error

text \<open>\<open>x || d\<close> for a value that is \<open>null\<close> or a string.\<close>

fun or_default :: "string option \<Rightarrow> string \<Rightarrow> string" where
  "or_default None d = d"
| "or_default (Some x) d = (if x \<noteq> [] then x else d)"

text \<open>
  \<open>x ? Buffer.from(x, "base64").toString("utf-8") : null\<close>; the decoder \<open>b64\<close> is
  Node's and is a parameter.
\<close>

fun decoded :: "(string \<Rightarrow> string) \<Rightarrow> string option \<Rightarrow> string option" where
  "decoded b64 None = None"
| "decoded b64 (Some x) = (if x \<noteq> [] then Some (b64 x) else None)"

text \<open>
  The \<open>while (true)\<close> loop, from the \<open>i\<close>-th poll on, with the milliseconds slept so
  far.  It returns the error thrown or the result that ended it, or nothing at all
  when no poll ends it.
\<close>

partial_function (option) poll_loop ::
  "(nat \<Rightarrow> poll) \<Rightarrow> nat \<Rightarrow> nat \<Rightarrow> ((js_error + judge_result) \<times> nat) option" where
  "poll_loop resp i ms =
     (case resp i of
        PollThrows m \<Rightarrow> Some (Inl (Rejection m), ms)
      | PollBody result \<Rightarrow>
          (case status result of
             None \<Rightarrow> Some (Inl TypeError_status_undefined, ms)
           | Some st \<Rightarrow>
               if status_id st > 2 then Some (Inr result, ms)
               else poll_loop resp (Suc i) (ms + 2000)))"

text \<open>The body of \<open>res.json\<close> after the loop.\<close>

definition reply :: "(string \<Rightarrow> string) \<Rightarrow> judge_result \<Rightarrow> js_error + compile_reply" where
  "reply b64 result =
     (let output = decoded b64 (stdout result);
          error = decoded b64 (stderr result)
      in case status result of
           None \<Rightarrow> Inl TypeError_status_undefined
         | Some st \<Rightarrow>
             Inr \<lparr>reply_output = or_default output (or_default error ''No output''),
                  reply_status = description st,
                  reply_memory = memory result,
                  reply_time = time result\<rparr>)"

text \<open>
  \<open>app.post("/compile")\<close>: the response and the milliseconds slept, or nothing when the
  loop never ends.
\<close>

definition compile ::
  "(string \<Rightarrow> string) \<Rightarrow> submission \<Rightarrow> (nat \<Rightarrow> poll) \<Rightarrow> (http_response \<times> nat) option" where
  "compile b64 sub resp =
     (case sub of
        SubmitThrows m \<Rightarrow> Some (Json500 (Rejection m), 0)
      | SubmitBody token err \<Rightarrow>
          if \<not> truthy token then Some (Json400 (or_default err ''Submission failed''), 0)
          else
            (case poll_loop resp 0 0 of
               None \<Rightarrow> None
             | Some (Inl e, ms) \<Rightarrow> Some (Json500 e, ms)
             | Some (Inr result, ms) \<Rightarrow>
                 (case reply b64 result of
                    Inl e \<Rightarrow> Some (Json500 e, ms)
                  | Inr body \<Rightarrow> Some (Json200 body, ms))))"

section \<open>The join handler at its awaits\<close>

text \<open>
  \<open>socket.on("join")\<close> up to \<open>await Room.findOne\<close>: the closure variables are set,
  the socket enters the socket.io room, and the query is answered from the collection
  (or rejects).  The answer is the handler's own copy of the document.
\<close>

definition join_start ::
  "faults \<Rightarrow> sid \<Rightarrow> string \<Rightarrow> string \<Rightarrow> string \<Rightarrow> world \<Rightarrow> room option option \<times> world" where
  "join_start f s rid uname rl w =
     (let w1 = w\<lparr>sessions := (sessions w)
                    (s := \<lparr>currentRoom = Some rid, currentUser = Some uname,
                           currentRole = Some rl\<rparr>),
                 socket_rooms := (socket_rooms w)(s := insert rid (socket_rooms w s))\<rparr>
      in (if f FindOne then None else Some (rooms w1 rid), w1))"

text \<open>
  The rest of the handler, run when the query has been answered: the test
  \<open>room.users.includes\<close> and the \<open>push\<close> act on the copy, and \<open>room.save()\<close> sends only
  what the handler changed.  For a new document that is an insert, which the unique
  index on \<open>roomId\<close> refuses when a document with that \<open>roomId\<close> is stored by then; for
  a pushed name it is a \<open>$push\<close> of that name on the stored document, whatever its
  list is by then; for an unchanged copy nothing is written.  The emissions carry the
  fields of the copy.
\<close>

definition join_resume ::
  "faults \<Rightarrow> sid \<Rightarrow> string \<Rightarrow> string \<Rightarrow> room option \<Rightarrow> world \<Rightarrow> result" where
  "join_resume f s rid uname snapshot w =
     (let room = (case snapshot of
                    None \<Rightarrow> new_Room rid [uname]
                  | Some r \<Rightarrow>
                      if uname \<notin> set (users r)
                      then r\<lparr>users := users r @ [uname]\<rparr> else r);
          sent = [(Io_to rid, UserJoined (users room)),
                  (Socket_emit s, CodeUpdate (code room)),
                  (Socket_emit s, LanguageUpdate (language room))]
      in if f SaveRoom then \<lparr>outcome = Rejected SaveRoom, emitted = [], after = w\<rparr>
         else
           (case snapshot of
              None \<Rightarrow>
                (case rooms w rid of
                   None \<Rightarrow> \<lparr>outcome = Resolved, emitted = sent,
                            after = w\<lparr>rooms := (rooms w)(rid \<mapsto> room)\<rparr>\<rparr>
                 | Some stored \<Rightarrow> \<lparr>outcome = Rejected SaveRoom, emitted = [], after = w\<rparr>)
            | Some r \<Rightarrow>
                if uname \<notin> set (users r) then
                  (case rooms w rid of
                     None \<Rightarrow> \<lparr>outcome = Rejected SaveRoom, emitted = [], after = w\<rparr>
                   | Some stored \<Rightarrow>
                       \<lparr>outcome = Resolved, emitted = sent,
                        after = w\<lparr>rooms := (rooms w)
                                  (rid \<mapsto> stored\<lparr>users := users stored @ [uname]\<rparr>)\<rparr>\<rparr>)
                else \<lparr>outcome = Resolved, emitted = sent, after = w\<rparr>))"

text \<open>
  Two joins of one room whose queries are both answered before either saves: the
  first handler runs to its \<open>await\<close>, the second handler runs to its \<open>await\<close>, then the
  first resumes and then the second.
\<close>

definition two_joins_interleaved ::
  "faults \<Rightarrow> sid \<Rightarrow> string \<Rightarrow> string \<Rightarrow> faults \<Rightarrow> sid \<Rightarrow> string \<Rightarrow> string \<Rightarrow> string \<Rightarrow> world
     \<Rightarrow> emission list \<times> world" where
  "two_joins_interleaved f1 s1 u1 rl1 f2 s2 u2 rl2 rid w =
     (case join_start f1 s1 rid u1 rl1 w of (q1, w1) \<Rightarrow>
      case join_start f2 s2 rid u2 rl2 w1 of (q2, w2) \<Rightarrow>
        let r1 = (case q1 of
                    None \<Rightarrow> \<lparr>outcome = Rejected FindOne, emitted = [], after = w2\<rparr>
                  | Some snapshot \<Rightarrow> join_resume f1 s1 rid u1 snapshot w2);
            r2 = (case q2 of
                    None \<Rightarrow> \<lparr>outcome = Rejected FindOne, emitted = [], after = after r1\<rparr>
                  | Some snapshot \<Rightarrow> join_resume f2 s2 rid u2 snapshot (after r1))
        in (emitted r1 @ emitted r2, after r2))"

section \<open>Example states and inputs\<close>

text \<open>
  The scenario of the specification: room \<open>R1\<close> has no prior state, connection \<open>A\<close>
  joins as alice (Admin), then connection \<open>B\<close> as bob (Tester).
\<close>

definition empty_world :: world where
  "empty_world = \<lparr>rooms = Map.empty, remarks = [], sessions = (\<lambda>_. null_session),
                  socket_rooms = (\<lambda>_. {})\<rparr>"

definition alice_joined :: world where
  "alice_joined = after (on_join no_faults ''A'' ''R1'' ''alice'' ''Admin'' empty_world)"

definition bob_joined :: world where
  "bob_joined = after (on_join no_faults ''B'' ''R1'' ''bob'' ''Tester'' alice_joined)"

text \<open>A connection that joined \<open>R1\<close> with the empty string as its user name.\<close>

definition nameless_joined :: world where
  "nameless_joined = after (on_join no_faults ''C'' ''R1'' [] ''Developer'' empty_world)"

text \<open>Every write rejects, every read succeeds.\<close>

definition writes_fail :: faults where
  "writes_fail op = (op = SaveRoom \<or> op = SaveRemark)"

text \<open>
  Two poll sequences.  In the first the submission is in the queue, then processing,
  then accepted.  In the second the first poll returns a body with no \<open>status\<close> and the
  second an accepted result.
\<close>

definition in_queue :: judge_result where
  "in_queue = \<lparr>status = Some \<lparr>status_id = 1, description = ''In Queue''\<rparr>,
               stdout = None, stderr = None, memory = None, time = None\<rparr>"

definition processing :: judge_result where
  "processing = \<lparr>status = Some \<lparr>status_id = 2, description = ''Processing''\<rparr>,
                 stdout = None, stderr = None, memory = None, time = None\<rparr>"

definition accepted :: judge_result where
  "accepted = \<lparr>status = Some \<lparr>status_id = 3, description = ''Accepted''\<rparr>,
               stdout = Some ''aGk='', stderr = None, memory = Some 3200,
               time = Some ''0.01''\<rparr>"

definition no_status :: judge_result where
  "no_status = \<lparr>status = None, stdout = None, stderr = None, memory = None, time = None\<rparr>"

definition polls_ok :: "nat \<Rightarrow> poll" where
  "polls_ok k = PollBody (if k = 0 then in_queue else if k = 1 then processing else accepted)"

definition polls_broken :: "nat \<Rightarrow> poll" where
  "polls_broken k = PollBody (if k = 0 then no_status else accepted)"

text \<open>
  After the two joins, alice (Admin) writes the code and the language of \<open>R1\<close>.
\<close>

definition edited_world :: world where
  "edited_world =
     after (on_languageChange no_faults ''A'' ''R1'' ''python''
       (after (on_codeChange no_faults ''A'' ''R1'' ''print(1)'' bob_joined)))"

text \<open>Then alice leaves and bob disconnects.\<close>

definition everyone_exits :: "(faults \<times> int \<times> event) list" where
  "everyone_exits = [(no_faults, 0, LeaveRoom ''A''), (no_faults, 0, Disconnect ''B'')]"

text \<open>A second room \<open>R2\<close>, joined by connection \<open>D\<close> as dave (Developer).\<close>

definition two_rooms :: world where
  "two_rooms = after (on_join no_faults ''D'' ''R2'' ''dave'' ''Developer'' bob_joined)"

section \<open>Notions used in the statements\<close>

text \<open>An event that writes the code or the language of the room \<open>rid\<close>.\<close>

fun edits_room :: "string \<Rightarrow> event \<Rightarrow> bool" where
  "edits_room rid (CodeChange s r c) = (r = rid)"
| "edits_room rid (LanguageChange s r l) = (r = rid)"
| "edits_room rid _ = False"

fun is_exit :: "event \<Rightarrow> bool" where
  "is_exit (LeaveRoom s) = True"
| "is_exit (Disconnect s) = True"
| "is_exit _ = False"

text \<open>The same state with the \<open>currentRoom\<close> of the connection \<open>s\<close> set to \<open>x\<close>.\<close>

definition rebind_room :: "sid \<Rightarrow> string option \<Rightarrow> world \<Rightarrow> world" where
  "rebind_room s x w =
     w\<lparr>sessions := (sessions w)(s := (sessions w s)\<lparr>currentRoom := x\<rparr>)\<rparr>"

text \<open>
  A poll that ends the loop: it throws, its body has no \<open>status\<close>, or its status id is
  above 2.  \<open>loop_end\<close> is what the loop leaves with at such a poll.
\<close>

fun ends_loop :: "poll \<Rightarrow> bool" where
  "ends_loop (PollThrows m) = True"
| "ends_loop (PollBody result) =
     (case status result of None \<Rightarrow> True | Some st \<Rightarrow> status_id st > 2)"

fun loop_end :: "poll \<Rightarrow> js_error + judge_result" where
  "loop_end (PollThrows m) = Inl (Rejection m)"
| "loop_end (PollBody result) =
     (case status result of
        None \<Rightarrow> Inl TypeError_status_undefined
      | Some st \<Rightarrow> Inr result)"

section \<open>Evaluating the example states\<close>

lemmas example_defs = empty_world_def alice_joined_def bob_joined_def nameless_joined_def
  no_faults_def writes_fail_def null_session_def new_Room_def new_Remark_def

lemmas handler_defs = on_join_def on_codeChange_def on_languageChange_def on_remark_add_def
  on_leaveRoom_def on_disconnect_def handleUserExit_def

lemma bob_joined_session:
  "sessions bob_joined ''B'' =
     \<lparr>currentRoom = Some ''R1'', currentUser = Some ''bob'', currentRole = Some ''Tester''\<rparr>"
  by (simp add: example_defs on_join_def Let_def)

lemma bob_joined_alice_session:
  "sessions bob_joined ''A'' =
     \<lparr>currentRoom = Some ''R1'', currentUser = Some ''alice'', currentRole = Some ''Admin''\<rparr>"
  by (simp add: example_defs on_join_def Let_def)

lemma bob_joined_rooms:
  "rooms bob_joined =
     [''R1'' \<mapsto> \<lparr>roomId = ''R1'', users = [''alice'', ''bob''], code = [],
                  language = ''javascript''\<rparr>]"
  by (simp add: example_defs on_join_def Let_def)

lemma bob_joined_remarks: "remarks bob_joined = []"
  by (simp add: example_defs on_join_def Let_def)

lemma bob_joined_socket_rooms:
  "socket_rooms bob_joined ''A'' = {''R1''}" "socket_rooms bob_joined ''B'' = {''R1''}"
  by (simp_all add: example_defs on_join_def Let_def)

section \<open>The role gate of the edit events\<close>

text \<open>
  C1.  A session whose role is neither "Developer" nor "Admin" (a "Tester", or a
  connection that has not joined) sends \<open>codeChange\<close> or \<open>languageChange\<close>: the handler
  resolves, the whole state (the room's \<open>code\<close> and \<open>language\<close> with it) is as before,
  and nothing is emitted, whatever the payload and whatever the store would have
  done.
\<close>

theorem role_gate_denies_edit:
  assumes "currentRole (sessions w s) \<noteq> Some ''Developer''"
      and "currentRole (sessions w s) \<noteq> Some ''Admin''"
  shows "on_codeChange f s rid c w = \<lparr>outcome = Resolved, emitted = [], after = w\<rparr>
       \<and> on_languageChange f s rid lang w = \<lparr>outcome = Resolved, emitted = [], after = w\<rparr>"
  using assms by (simp add: on_codeChange_def on_languageChange_def may_edit_def)

theorem role_gate_denies_edit_witness:
  "currentRole (sessions bob_joined ''B'') = Some ''Tester''
   \<and> on_codeChange no_faults ''B'' ''R1'' ''print(1)'' bob_joined
       = \<lparr>outcome = Resolved, emitted = [], after = bob_joined\<rparr>
   \<and> on_languageChange no_faults ''B'' ''R1'' ''python'' bob_joined
       = \<lparr>outcome = Resolved, emitted = [], after = bob_joined\<rparr>"
proof -
  have r: "currentRole (sessions bob_joined ''B'') = Some ''Tester''"
    by (simp add: bob_joined_session)
  from r role_gate_denies_edit [of bob_joined "''B''" no_faults "''R1''" "''print(1)''" "''python''"]
  show ?thesis by simp
qed

section \<open>Joining\<close>

text \<open>
  C2.  A join for a \<open>roomId\<close> that no Room has, with the two store calls completing:
  the handler resolves; the Room collection gains exactly one document under that
  \<open>roomId\<close>, with \<open>users = [userName]\<close>, \<open>code = ""\<close> and \<open>language = "javascript"\<close>;
  the emissions are, in this order, \<open>userJoined [userName]\<close> to the whole room (which
  the joining socket has entered), then \<open>codeUpdate ""\<close> and
  \<open>languageUpdate "javascript"\<close> to the joining socket and to no other.
\<close>

theorem join_creates_room:
  assumes "rooms w rid = None" and "\<not> f FindOne" and "\<not> f SaveRoom"
  shows "outcome (on_join f s rid uname rl w) = Resolved
       \<and> rooms (after (on_join f s rid uname rl w)) =
           (rooms w)(rid \<mapsto> \<lparr>roomId = rid, users = [uname], code = [],
                              language = ''javascript''\<rparr>)
       \<and> emitted (on_join f s rid uname rl w) =
           [(Io_to rid, UserJoined [uname]),
            (Socket_emit s, CodeUpdate []),
            (Socket_emit s, LanguageUpdate ''javascript'')]
       \<and> receives (after (on_join f s rid uname rl w)) (Io_to rid) s
       \<and> receives (after (on_join f s rid uname rl w)) (Socket_emit s) t = (t = s)"
  using assms by (simp add: on_join_def Let_def new_Room_def)

theorem join_creates_room_witness:
  "rooms empty_world ''R1'' = None
   \<and> rooms (after (on_join no_faults ''A'' ''R1'' ''alice'' ''Admin'' empty_world)) ''R1'' =
       Some \<lparr>roomId = ''R1'', users = [''alice''], code = [], language = ''javascript''\<rparr>
   \<and> emitted (on_join no_faults ''A'' ''R1'' ''alice'' ''Admin'' empty_world) =
       [(Io_to ''R1'', UserJoined [''alice'']),
        (Socket_emit ''A'', CodeUpdate []),
        (Socket_emit ''A'', LanguageUpdate ''javascript'')]
   \<and> receives (after (on_join no_faults ''A'' ''R1'' ''alice'' ''Admin'' empty_world))
        (Socket_emit ''A'') ''B'' = False"
proof -
  have h: "rooms empty_world ''R1'' = None" by (simp add: empty_world_def)
  have f: "\<not> no_faults FindOne" "\<not> no_faults SaveRoom" by (simp_all add: no_faults_def)
  from join_creates_room [OF h f, of "''A''" "''alice''" "''Admin''" "''B''"] h
  show ?thesis by simp
qed

section \<open>Remarks\<close>

text \<open>
  C4.  With the write of the remark completing, \<open>remark:add\<close> changes the Remark
  collection if and only if the role of the session is "Tester".  For a Tester one
  remark is appended: its author and role are the session's, its text and line the
  event's, its timestamp the clock reading, \<open>resolved\<close> false; it is emitted as
  \<open>remark:update\<close> with \<open>io.to(roomId)\<close>, which does not leave the sender out (the
  author receives it whenever its socket is in that room).  For any other role the
  state is as before and nothing is emitted.
\<close>

theorem remark_add_gate:
  assumes "\<not> f SaveRemark"
  shows "(currentRole (sessions w s) = Some ''Tester'' \<longrightarrow>
            on_remark_add f now s rid msg ln w =
              \<lparr>outcome = Resolved,
               emitted = [(Io_to rid, RemarkUpdate
                   \<lparr>remark_roomId = rid, userName = currentUser (sessions w s),
                    role = Some ''Tester'', remark_text = msg, line = ln,
                    createdAt = now, resolved = False\<rparr>)],
               after = w\<lparr>remarks := remarks w @
                  [\<lparr>remark_roomId = rid, userName = currentUser (sessions w s),
                    role = Some ''Tester'', remark_text = msg, line = ln,
                    createdAt = now, resolved = False\<rparr>]\<rparr>\<rparr>)
       \<and> (currentRole (sessions w s) \<noteq> Some ''Tester'' \<longrightarrow>
            on_remark_add f now s rid msg ln w =
              \<lparr>outcome = Resolved, emitted = [], after = w\<rparr>)
       \<and> (remarks (after (on_remark_add f now s rid msg ln w)) \<noteq> remarks w)
            = (currentRole (sessions w s) = Some ''Tester'')
       \<and> (receives (after (on_remark_add f now s rid msg ln w)) (Io_to rid) s
            = (rid \<in> socket_rooms w s))"
  using assms by (simp add: on_remark_add_def Let_def new_Remark_def)

theorem remark_add_gate_witness:
  "currentRole (sessions bob_joined ''B'') = Some ''Tester''
   \<and> emitted (on_remark_add no_faults 1700 ''B'' ''R1'' ''check this'' 1 bob_joined) =
       [(Io_to ''R1'', RemarkUpdate
          \<lparr>remark_roomId = ''R1'', userName = Some ''bob'', role = Some ''Tester'',
           remark_text = ''check this'', line = 1, createdAt = 1700, resolved = False\<rparr>)]
   \<and> remarks (after (on_remark_add no_faults 1700 ''B'' ''R1'' ''check this'' 1 bob_joined)) =
       [\<lparr>remark_roomId = ''R1'', userName = Some ''bob'', role = Some ''Tester'',
         remark_text = ''check this'', line = 1, createdAt = 1700, resolved = False\<rparr>]
   \<and> receives (after (on_remark_add no_faults 1700 ''B'' ''R1'' ''check this'' 1 bob_joined))
        (Io_to ''R1'') ''B''
   \<and> currentRole (sessions bob_joined ''A'') = Some ''Admin''
   \<and> on_remark_add no_faults 1700 ''A'' ''R1'' ''check this'' 1 bob_joined =
       \<lparr>outcome = Resolved, emitted = [], after = bob_joined\<rparr>"
proof -
  have f: "\<not> no_faults SaveRemark" by (simp add: no_faults_def)
  from f remark_add_gate [where f = no_faults and w = bob_joined and s = "''B''"
         and now = 1700 and rid = "''R1''" and msg = "''check this''" and ln = 1]
       remark_add_gate [where f = no_faults and w = bob_joined and s = "''A''"
         and now = 1700 and rid = "''R1''" and msg = "''check this''" and ln = 1]
  show ?thesis
    by (simp add: bob_joined_session bob_joined_alice_session bob_joined_remarks
        bob_joined_socket_rooms)
qed

section \<open>Edits of a room that does not exist\<close>

text \<open>
  C7.  \<open>codeChange\<close> or \<open>languageChange\<close> whose \<open>roomId\<close> names no Room: the state after
  the handler is the state before (no Room created, no field written) and nothing is
  emitted, for any role and any behaviour of the store; when the lookup completes the
  handler resolves.
\<close>

theorem absent_room_edit_noop:
  assumes "rooms w rid = None"
  shows "after (on_codeChange f s rid c w) = w
       \<and> emitted (on_codeChange f s rid c w) = []
       \<and> after (on_languageChange f s rid lang w) = w
       \<and> emitted (on_languageChange f s rid lang w) = []
       \<and> (\<not> f FindOne \<longrightarrow> outcome (on_codeChange f s rid c w) = Resolved
                          \<and> outcome (on_languageChange f s rid lang w) = Resolved)"
  using assms by (simp add: on_codeChange_def on_languageChange_def)

theorem absent_room_edit_noop_witness:
  "rooms bob_joined ''R9'' = None
   \<and> may_edit (sessions bob_joined ''A'')
   \<and> on_codeChange no_faults ''A'' ''R9'' ''print(1)'' bob_joined =
       \<lparr>outcome = Resolved, emitted = [], after = bob_joined\<rparr>
   \<and> on_languageChange no_faults ''A'' ''R9'' ''python'' bob_joined =
       \<lparr>outcome = Resolved, emitted = [], after = bob_joined\<rparr>"
proof -
  have h: "rooms bob_joined ''R9'' = None" by (simp add: bob_joined_rooms)
  have e: "may_edit (sessions bob_joined ''A'')"
    by (simp add: may_edit_def bob_joined_alice_session)
  have f: "\<not> no_faults FindOne" by (simp add: no_faults_def)
  from absent_room_edit_noop [OF h, of no_faults "''A''" "''print(1)''" "''python''"] f
  have "on_codeChange no_faults ''A'' ''R9'' ''print(1)'' bob_joined =
          \<lparr>outcome = Resolved, emitted = [], after = bob_joined\<rparr>"
       "on_languageChange no_faults ''A'' ''R9'' ''python'' bob_joined =
          \<lparr>outcome = Resolved, emitted = [], after = bob_joined\<rparr>"
    by (simp_all add: result.equality)
  with h e show ?thesis by simp
qed

section \<open>Leaving and disconnecting\<close>

text \<open>
  What \<open>handleUserExit\<close> does when its guard passes and the store call completes, and
  when its guard does not pass.
\<close>

lemma handleUserExit_joined:
  assumes "currentRoom (sessions w s) = Some cr" and "currentUser (sessions w s) = Some cu"
    and "cr \<noteq> []" and "cu \<noteq> []" and "\<not> f FindOneAndUpdate"
  shows "handleUserExit f s w =
     \<lparr>outcome = Resolved,
      emitted = (case rooms w cr of
                   None \<Rightarrow> []
                 | Some r \<Rightarrow> [(Io_to cr, UserJoined (removeAll cu (users r)))]),
      after = w\<lparr>rooms := (case rooms w cr of
                             None \<Rightarrow> rooms w
                           | Some r \<Rightarrow> (rooms w)(cr \<mapsto> r\<lparr>users := removeAll cu (users r)\<rparr>)),
                 sessions := (sessions w)(s := null_session),
                 socket_rooms := (socket_rooms w)(s := socket_rooms w s - {cr})\<rparr>\<rparr>"
  using assms by (simp add: handleUserExit_def Let_def split: option.splits)

lemma handleUserExit_unjoined:
  assumes "\<not> truthy (currentRoom (sessions w s)) \<or> \<not> truthy (currentUser (sessions w s))"
  shows "handleUserExit f s w = \<lparr>outcome = Resolved, emitted = [], after = w\<rparr>"
  using assms by (auto simp add: handleUserExit_def)

lemma nameless_joined_state:
  "sessions nameless_joined ''C'' =
     \<lparr>currentRoom = Some ''R1'', currentUser = Some [], currentRole = Some ''Developer''\<rparr>"
  "rooms nameless_joined ''R1'' =
     Some \<lparr>roomId = ''R1'', users = [[]], code = [], language = ''javascript''\<rparr>"
  "socket_rooms nameless_joined ''C'' = {''R1''}"
  by (simp_all add: example_defs on_join_def Let_def)

text \<open>
  C3.  The connection \<open>C\<close> has joined \<open>R1\<close> with the empty string as its user name:
  its three closure variables are set, the room lists the name, the socket is in the
  room.  Its \<open>leaveRoom\<close> and its \<open>disconnect\<close> then do nothing: the guard
  \<open>currentRoom && currentUser\<close> is falsy on the empty string, so the name stays in
  \<open>users\<close>, no \<open>userJoined\<close> is emitted although the Room exists, and the closure
  variables are not cleared.
\<close>

theorem exit_skips_empty_name:
  "sessions nameless_joined ''C'' =
     \<lparr>currentRoom = Some ''R1'', currentUser = Some [], currentRole = Some ''Developer''\<rparr>
   \<and> rooms nameless_joined ''R1'' =
       Some \<lparr>roomId = ''R1'', users = [[]], code = [], language = ''javascript''\<rparr>
   \<and> on_leaveRoom no_faults ''C'' nameless_joined =
       \<lparr>outcome = Resolved, emitted = [], after = nameless_joined\<rparr>
   \<and> on_disconnect no_faults ''C'' nameless_joined =
       \<lparr>outcome = Resolved, emitted = [], after = nameless_joined\<rparr>"
  by (simp add: nameless_joined_state on_leaveRoom_def on_disconnect_def handleUserExit_def)

section \<open>Rooms persist\<close>

lemma run_Cons_world:
  "snd (run ((f, now, e) # es) w) = snd (run es (after (handle f now e w)))"
  by (simp add: Let_def case_prod_beta)

lemma handle_dom: "dom (rooms w) \<subseteq> dom (rooms (after (handle f now e w)))"
  by (cases e) (auto simp add: handler_defs Let_def split: option.splits)

lemma run_dom: "dom (rooms w) \<subseteq> dom (rooms (snd (run es w)))"
proof (induction es arbitrary: w)
  case Nil
  then show ?case by simp
next
  case (Cons x es)
  obtain f now e where x: "x = (f, now, e)" by (cases x)
  have "dom (rooms w) \<subseteq> dom (rooms (after (handle f now e w)))" by (rule handle_dom)
  also have "\<dots> \<subseteq> dom (rooms (snd (run es (after (handle f now e w)))))" by (rule Cons.IH)
  finally show ?case by (simp only: x run_Cons_world)
qed

lemma handle_keeps_doc:
  assumes "rooms w rid = Some rm" "\<not> edits_room rid e"
  shows "\<exists>rm'. rooms (after (handle f now e w)) rid = Some rm' \<and> code rm' = code rm
            \<and> language rm' = language rm"
  using assms by (cases e) (auto simp add: handler_defs Let_def split: option.splits)

lemma run_keeps_doc:
  assumes "rooms w rid = Some rm" "\<forall>x\<in>set es. \<not> edits_room rid (snd (snd x))"
  shows "\<exists>rm'. rooms (snd (run es w)) rid = Some rm' \<and> code rm' = code rm
            \<and> language rm' = language rm"
  using assms
proof (induction es arbitrary: w rm)
  case Nil
  then show ?case by simp
next
  case (Cons x es)
  obtain f now e where x: "x = (f, now, e)" by (cases x)
  from Cons.prems x have ne: "\<not> edits_room rid e" by simp
  from handle_keeps_doc [OF Cons.prems(1) ne, of f now]
  obtain rm1 where rm1: "rooms (after (handle f now e w)) rid = Some rm1"
    "code rm1 = code rm" "language rm1 = language rm" by blast
  from Cons.prems(2) have rest: "\<forall>x\<in>set es. \<not> edits_room rid (snd (snd x))" by simp
  from Cons.IH [OF rm1(1) rest] rm1
  show ?case by (simp only: x run_Cons_world)
qed

lemma join_hydrates:
  assumes "rooms w rid = Some rm" "\<not> f FindOne" "\<not> f SaveRoom"
  shows "tl (emitted (on_join f s rid u rl w)) =
     [(Socket_emit s, CodeUpdate (code rm)), (Socket_emit s, LanguageUpdate (language rm))]"
  using assms by (simp add: on_join_def Let_def)

lemma codeChange_writes:
  assumes "may_edit (sessions w s)" "rooms w rid = Some rm" "\<not> f FindOne" "\<not> f SaveRoom"
  shows "on_codeChange f s rid c w =
     \<lparr>outcome = Resolved, emitted = [(Socket_to s rid, CodeUpdate c)],
      after = w\<lparr>rooms := (rooms w)(rid \<mapsto> rm\<lparr>code := c\<rparr>)\<rparr>\<rparr>"
  using assms by (simp add: on_codeChange_def)

lemma languageChange_writes:
  assumes "may_edit (sessions w s)" "rooms w rid = Some rm" "\<not> f FindOne" "\<not> f SaveRoom"
  shows "on_languageChange f s rid l w =
     \<lparr>outcome = Resolved, emitted = [(Socket_to s rid, LanguageUpdate l)],
      after = w\<lparr>rooms := (rooms w)(rid \<mapsto> rm\<lparr>language := l\<rparr>)\<rparr>\<rparr>"
  using assms by (simp add: on_languageChange_def)

text \<open>
  C5.  Over any run of events, with any store faults, every \<open>roomId\<close> that has a Room
  keeps one: no handler removes a document.  A join whose store calls complete sends
  the joining socket the \<open>code\<close> and \<open>language\<close> the Room holds; these are the ones it
  held before any run of events in which no \<open>codeChange\<close> or \<open>languageChange\<close> names
  that room (leaves, disconnects, joins, remarks, edits of other rooms), and in
  particular the ones a completed \<open>codeChange\<close> or \<open>languageChange\<close> wrote last.
\<close>

theorem rooms_persist_and_rehydrate:
  "dom (rooms w) \<subseteq> dom (rooms (snd (run es w)))
   \<and> (rooms w rid = Some rm \<longrightarrow> (\<forall>x\<in>set es. \<not> edits_room rid (snd (snd x))) \<longrightarrow>
        \<not> f FindOne \<longrightarrow> \<not> f SaveRoom \<longrightarrow>
        tl (emitted (on_join f s rid u rl (snd (run es w)))) =
          [(Socket_emit s, CodeUpdate (code rm)),
           (Socket_emit s, LanguageUpdate (language rm))])
   \<and> (may_edit (sessions w0 s0) \<longrightarrow> rooms w0 rid = Some rm0 \<longrightarrow>
        \<not> f0 FindOne \<longrightarrow> \<not> f0 SaveRoom \<longrightarrow>
        (\<forall>x\<in>set es. \<not> edits_room rid (snd (snd x))) \<longrightarrow>
        \<not> f FindOne \<longrightarrow> \<not> f SaveRoom \<longrightarrow>
        tl (emitted (on_join f s rid u rl
              (snd (run es (after (on_codeChange f0 s0 rid c w0)))))) =
          [(Socket_emit s, CodeUpdate c),
           (Socket_emit s, LanguageUpdate (language rm0))]
        \<and> tl (emitted (on_join f s rid u rl
              (snd (run es (after (on_languageChange f0 s0 rid l w0)))))) =
          [(Socket_emit s, CodeUpdate (code rm0)),
           (Socket_emit s, LanguageUpdate l)])"
proof (intro conjI impI)
  show "dom (rooms w) \<subseteq> dom (rooms (snd (run es w)))" by (rule run_dom)
next
  assume a: "rooms w rid = Some rm" "\<forall>x\<in>set es. \<not> edits_room rid (snd (snd x))"
    "\<not> f FindOne" "\<not> f SaveRoom"
  from run_keeps_doc [OF a(1,2)] obtain rm' where
    "rooms (snd (run es w)) rid = Some rm'" "code rm' = code rm" "language rm' = language rm"
    by blast
  with join_hydrates [OF _ a(3,4)]
  show "tl (emitted (on_join f s rid u rl (snd (run es w)))) =
          [(Socket_emit s, CodeUpdate (code rm)),
           (Socket_emit s, LanguageUpdate (language rm))]" by simp
next
  assume a: "may_edit (sessions w0 s0)" "rooms w0 rid = Some rm0" "\<not> f0 FindOne"
    "\<not> f0 SaveRoom" "\<forall>x\<in>set es. \<not> edits_room rid (snd (snd x))"
    "\<not> f FindOne" "\<not> f SaveRoom"
  have "rooms (after (on_codeChange f0 s0 rid c w0)) rid = Some (rm0\<lparr>code := c\<rparr>)"
    by (simp add: codeChange_writes [OF a(1,2,3,4)])
  from run_keeps_doc [OF this a(5)] obtain rm' where
    "rooms (snd (run es (after (on_codeChange f0 s0 rid c w0)))) rid = Some rm'"
    "code rm' = c" "language rm' = language rm0"
    by auto
  with join_hydrates [OF _ a(6,7)]
  show "tl (emitted (on_join f s rid u rl
              (snd (run es (after (on_codeChange f0 s0 rid c w0)))))) =
          [(Socket_emit s, CodeUpdate c),
           (Socket_emit s, LanguageUpdate (language rm0))]" by simp
next
  assume a: "may_edit (sessions w0 s0)" "rooms w0 rid = Some rm0" "\<not> f0 FindOne"
    "\<not> f0 SaveRoom" "\<forall>x\<in>set es. \<not> edits_room rid (snd (snd x))"
    "\<not> f FindOne" "\<not> f SaveRoom"
  have "rooms (after (on_languageChange f0 s0 rid l w0)) rid = Some (rm0\<lparr>language := l\<rparr>)"
    by (simp add: languageChange_writes [OF a(1,2,3,4)])
  from run_keeps_doc [OF this a(5)] obtain rm' where
    "rooms (snd (run es (after (on_languageChange f0 s0 rid l w0)))) rid = Some rm'"
    "code rm' = code rm0" "language rm' = l"
    by auto
  with join_hydrates [OF _ a(6,7)]
  show "tl (emitted (on_join f s rid u rl
              (snd (run es (after (on_languageChange f0 s0 rid l w0)))))) =
          [(Socket_emit s, CodeUpdate (code rm0)),
           (Socket_emit s, LanguageUpdate l)]" by simp
qed

lemma edited_world_rooms:
  "rooms edited_world =
     [''R1'' \<mapsto> \<lparr>roomId = ''R1'', users = [''alice'', ''bob''], code = ''print(1)'',
                  language = ''python''\<rparr>]"
  by (simp add: edited_world_def on_codeChange_def on_languageChange_def may_edit_def
      bob_joined_alice_session bob_joined_rooms no_faults_def)

lemma edited_world_sessions: "sessions edited_world = sessions bob_joined"
  by (simp add: edited_world_def on_codeChange_def on_languageChange_def may_edit_def
      bob_joined_alice_session bob_joined_rooms no_faults_def)

lemma after_exits_rooms:
  "rooms (snd (run everyone_exits edited_world)) =
     [''R1'' \<mapsto> \<lparr>roomId = ''R1'', users = [], code = ''print(1)'',
                  language = ''python''\<rparr>]"
  by (simp add: everyone_exits_def Let_def on_leaveRoom_def on_disconnect_def
      handleUserExit_def edited_world_rooms edited_world_sessions bob_joined_session
      bob_joined_alice_session no_faults_def null_session_def)


theorem rooms_persist_and_rehydrate_witness:
  "rooms edited_world ''R1'' =
     Some \<lparr>roomId = ''R1'', users = [''alice'', ''bob''], code = ''print(1)'',
           language = ''python''\<rparr>
   \<and> rooms (snd (run everyone_exits edited_world)) ''R1'' =
       Some \<lparr>roomId = ''R1'', users = [], code = ''print(1)'', language = ''python''\<rparr>
   \<and> dom (rooms edited_world) \<subseteq> dom (rooms (snd (run everyone_exits edited_world)))
   \<and> emitted (on_join no_faults ''A'' ''R1'' ''alice'' ''Admin''
                (snd (run everyone_exits edited_world))) =
       [(Io_to ''R1'', UserJoined [''alice'']),
        (Socket_emit ''A'', CodeUpdate ''print(1)''),
        (Socket_emit ''A'', LanguageUpdate ''python'')]"
proof -
  have r: "rooms edited_world ''R1'' =
     Some \<lparr>roomId = ''R1'', users = [''alice'', ''bob''], code = ''print(1)'',
           language = ''python''\<rparr>"
    by (simp add: edited_world_rooms)
  have q: "\<forall>x\<in>set everyone_exits. \<not> edits_room ''R1'' (snd (snd x))"
    by (simp add: everyone_exits_def)
  have f: "\<not> no_faults FindOne" "\<not> no_faults SaveRoom" by (simp_all add: no_faults_def)
  have e: "emitted (on_join no_faults ''A'' ''R1'' ''alice'' ''Admin''
                (snd (run everyone_exits edited_world))) =
       [(Io_to ''R1'', UserJoined [''alice'']),
        (Socket_emit ''A'', CodeUpdate ''print(1)''),
        (Socket_emit ''A'', LanguageUpdate ''python'')]"
    by (simp add: on_join_def Let_def after_exits_rooms no_faults_def)
  from rooms_persist_and_rehydrate [where w = edited_world and es = everyone_exits
         and rid = "''R1''" and f = no_faults and s = "''A''" and u = "''alice''"
         and rl = "''Admin''"] r q f
  have "dom (rooms edited_world) \<subseteq> dom (rooms (snd (run everyone_exits edited_world)))
      \<and> tl (emitted (on_join no_faults ''A'' ''R1'' ''alice'' ''Admin''
                (snd (run everyone_exits edited_world)))) =
          [(Socket_emit ''A'', CodeUpdate ''print(1)''),
           (Socket_emit ''A'', LanguageUpdate ''python'')]"
    by fastforce
  with r e show ?thesis by (simp add: after_exits_rooms)
qed

section \<open>Joining twice\<close>

text \<open>
  Run without interruption, the split handler is the handler given first.
\<close>

lemma on_join_serial:
  "on_join f s rid uname rl w =
     (case join_start f s rid uname rl w of
        (None, w1) \<Rightarrow> \<lparr>outcome = Rejected FindOne, emitted = [], after = w1\<rparr>
      | (Some snapshot, w1) \<Rightarrow> join_resume f s rid uname snapshot w1)"
  by (cases "rooms w rid")
     (simp_all add: on_join_def join_start_def join_resume_def Let_def fun_upd_idem)

text \<open>
  A join whose query finds the name listed writes nothing and broadcasts the list it
  read.
\<close>

lemma join_resume_listed:
  assumes "uname \<in> set (users r)" and "\<not> f SaveRoom"
  shows "join_resume f s rid uname (Some r) w =
     \<lparr>outcome = Resolved,
      emitted = [(Io_to rid, UserJoined (users r)),
                 (Socket_emit s, CodeUpdate (code r)),
                 (Socket_emit s, LanguageUpdate (language r))],
      after = w\<rparr>"
  using assms by (simp add: join_resume_def Let_def)

text \<open>
  Two interleaved joins under a name the room does not list both push it.
\<close>

lemma two_joins_interleaved_duplicate:
  assumes "rooms w rid = Some r" and "uname \<notin> set (users r)"
    and "\<not> f1 FindOne" and "\<not> f1 SaveRoom" and "\<not> f2 FindOne" and "\<not> f2 SaveRoom"
  shows "rooms (snd (two_joins_interleaved f1 s1 uname rl1 f2 s2 uname rl2 rid w)) rid =
           Some (r\<lparr>users := users r @ [uname, uname]\<rparr>)"
  using assms
  by (simp add: two_joins_interleaved_def join_start_def join_resume_def Let_def)

lemma alice_joined_rooms:
  "rooms alice_joined =
     [''R1'' \<mapsto> \<lparr>roomId = ''R1'', users = [''alice''], code = [],
                  language = ''javascript''\<rparr>]"
  by (simp add: example_defs on_join_def Let_def)

text \<open>
  C8.  Room \<open>R1\<close> lists alice only.  The connection \<open>B\<close> sends the same join, as bob,
  twice, and the second query is answered before the first save.  Both handlers read
  a list without bob, both push bob, and the two saves leave \<open>users\<close> with bob twice;
  each handler broadcasts its own copy of the list, with bob once.  Membership after
  the repeated join has a duplicate entry.
\<close>

theorem join_race_stores_duplicate:
  "rooms alice_joined ''R1'' =
     Some \<lparr>roomId = ''R1'', users = [''alice''], code = [], language = ''javascript''\<rparr>
   \<and> rooms (snd (two_joins_interleaved no_faults ''B'' ''bob'' ''Tester''
                    no_faults ''B'' ''bob'' ''Tester'' ''R1'' alice_joined)) ''R1'' =
       Some \<lparr>roomId = ''R1'', users = [''alice'', ''bob'', ''bob''], code = [],
             language = ''javascript''\<rparr>
   \<and> fst (two_joins_interleaved no_faults ''B'' ''bob'' ''Tester''
             no_faults ''B'' ''bob'' ''Tester'' ''R1'' alice_joined) =
       [(Io_to ''R1'', UserJoined [''alice'', ''bob'']),
        (Socket_emit ''B'', CodeUpdate []),
        (Socket_emit ''B'', LanguageUpdate ''javascript''),
        (Io_to ''R1'', UserJoined [''alice'', ''bob'']),
        (Socket_emit ''B'', CodeUpdate []),
        (Socket_emit ''B'', LanguageUpdate ''javascript'')]"
  by (simp add: two_joins_interleaved_def join_start_def join_resume_def Let_def
      alice_joined_rooms no_faults_def)


section \<open>A write that fails\<close>

lemma write_failure_emits_nothing:
  assumes "f SaveRoom" and "f SaveRemark" and "\<not> is_exit e"
  shows "emitted (handle f now e w) = [] \<and> rooms (after (handle f now e w)) = rooms w
       \<and> remarks (after (handle f now e w)) = remarks w"
  using assms by (cases e) (simp_all add: handler_defs Let_def split: option.splits)

text \<open>
  C6, as the specification has it: when the write fails the failure is reported to the
  originating connection.  It is not.  alice (Admin) sends \<open>codeChange\<close> for \<open>R1\<close> and
  the save rejects: the handler rejects at the save and has emitted nothing, to the
  originating connection or to anyone.
\<close>

theorem write_failure_not_reported:
  "outcome (on_codeChange writes_fail ''A'' ''R1'' ''print(1)'' bob_joined) = Rejected SaveRoom
   \<and> emitted (on_codeChange writes_fail ''A'' ''R1'' ''print(1)'' bob_joined) = []"
  by (simp add: on_codeChange_def may_edit_def bob_joined_alice_session bob_joined_rooms
      writes_fail_def)

text \<open>
  C6, amended.  For \<open>join\<close>, \<open>codeChange\<close>, \<open>languageChange\<close> and \<open>remark:add\<close>, when the
  writes reject, nothing at all is emitted (no broadcast, and no report to the
  originating connection either) and neither collection changes; the handler itself
  rejects at the write whenever it reaches it (a join whose lookup completes, an edit by
  an authorised role of an existing room, a remark by a Tester).
\<close>

theorem write_failure_is_silent:
  assumes "f SaveRoom" and "f SaveRemark" and "\<not> is_exit e"
  shows "emitted (handle f now e w) = []
       \<and> rooms (after (handle f now e w)) = rooms w
       \<and> remarks (after (handle f now e w)) = remarks w
       \<and> (\<not> f FindOne \<longrightarrow> outcome (on_join f s rid u rl w) = Rejected SaveRoom)
       \<and> (\<not> f FindOne \<longrightarrow> may_edit (sessions w s) \<longrightarrow> rooms w rid = Some rm \<longrightarrow>
            outcome (on_codeChange f s rid c w) = Rejected SaveRoom
            \<and> outcome (on_languageChange f s rid l w) = Rejected SaveRoom)
       \<and> (currentRole (sessions w s) = Some ''Tester'' \<longrightarrow>
            outcome (on_remark_add f now s rid msg ln w) = Rejected SaveRemark)"
proof -
  note write_failure_emits_nothing [OF assms]
  moreover have "\<not> f FindOne \<longrightarrow> outcome (on_join f s rid u rl w) = Rejected SaveRoom"
    using assms(1) by (simp add: on_join_def Let_def)
  moreover have "\<not> f FindOne \<longrightarrow> may_edit (sessions w s) \<longrightarrow> rooms w rid = Some rm \<longrightarrow>
            outcome (on_codeChange f s rid c w) = Rejected SaveRoom
            \<and> outcome (on_languageChange f s rid l w) = Rejected SaveRoom"
    using assms(1) by (simp add: on_codeChange_def on_languageChange_def)
  moreover have "currentRole (sessions w s) = Some ''Tester'' \<longrightarrow>
            outcome (on_remark_add f now s rid msg ln w) = Rejected SaveRemark"
    using assms(2) by (simp add: on_remark_add_def Let_def)
  ultimately show ?thesis by blast
qed

theorem write_failure_is_silent_witness:
  "writes_fail SaveRoom \<and> writes_fail SaveRemark
   \<and> currentRole (sessions bob_joined ''B'') = Some ''Tester''
   \<and> on_remark_add writes_fail 1700 ''B'' ''R1'' ''check this'' 1 bob_joined =
       \<lparr>outcome = Rejected SaveRemark, emitted = [], after = bob_joined\<rparr>
   \<and> emitted (handle writes_fail 1700 (RemarkAdd ''B'' ''R1'' ''check this'' 1) bob_joined) = []
   \<and> remarks (after (handle writes_fail 1700 (RemarkAdd ''B'' ''R1'' ''check this'' 1)
        bob_joined)) = []"
proof -
  have f: "writes_fail SaveRoom" "writes_fail SaveRemark" by (simp_all add: writes_fail_def)
  have e: "\<not> is_exit (RemarkAdd ''B'' ''R1'' ''check this'' 1)" by simp
  have t: "currentRole (sessions bob_joined ''B'') = Some ''Tester''"
    by (simp add: bob_joined_session)
  have r: "on_remark_add writes_fail 1700 ''B'' ''R1'' ''check this'' 1 bob_joined =
       \<lparr>outcome = Rejected SaveRemark, emitted = [], after = bob_joined\<rparr>"
    by (simp add: on_remark_add_def Let_def bob_joined_session writes_fail_def)
  from write_failure_is_silent [OF f e, where now = 1700 and w = bob_joined and s = "''B''"]
       f t r
  show ?thesis by (simp add: bob_joined_remarks)
qed

section \<open>The room of the payload\<close>

lemma codeChange_rebind:
  "on_codeChange f s rid c (rebind_room s x w) =
     (on_codeChange f s rid c w)
       \<lparr>after := rebind_room s x (after (on_codeChange f s rid c w))\<rparr>"
  by (simp add: on_codeChange_def rebind_room_def may_edit_def split: option.splits)

lemma languageChange_rebind:
  "on_languageChange f s rid l (rebind_room s x w) =
     (on_languageChange f s rid l w)
       \<lparr>after := rebind_room s x (after (on_languageChange f s rid l w))\<rparr>"
  by (simp add: on_languageChange_def rebind_room_def may_edit_def split: option.splits)

lemma remark_add_rebind:
  "on_remark_add f now s rid msg ln (rebind_room s x w) =
     (on_remark_add f now s rid msg ln w)
       \<lparr>after := rebind_room s x (after (on_remark_add f now s rid msg ln w))\<rparr>"
  by (simp add: on_remark_add_def rebind_room_def Let_def)

lemma two_rooms_state:
  "rooms two_rooms =
     [''R1'' \<mapsto> \<lparr>roomId = ''R1'', users = [''alice'', ''bob''], code = [],
                  language = ''javascript''\<rparr>,
      ''R2'' \<mapsto> \<lparr>roomId = ''R2'', users = [''dave''], code = [],
                  language = ''javascript''\<rparr>]"
  "sessions two_rooms ''A'' =
     \<lparr>currentRoom = Some ''R1'', currentUser = Some ''alice'', currentRole = Some ''Admin''\<rparr>"
  "socket_rooms two_rooms ''A'' = {''R1''}"
  "socket_rooms two_rooms ''B'' = {''R1''}"
  "socket_rooms two_rooms ''D'' = {''R2''}"
  by (simp_all add: two_rooms_def example_defs on_join_def Let_def)

text \<open>
  C10, as the specification has it: an event that names another room is a no-op when that room
  does not exist.  For \<open>remark:add\<close> it is not.  bob (Tester, joined to \<open>R1\<close>) sends
  \<open>remark:add\<close> with \<open>roomId = "R2"\<close>, which no Room has: the remark is stored under
  \<open>R2\<close> and emitted to \<open>io.to("R2")\<close>.
\<close>

theorem remark_for_absent_room:
  "rooms bob_joined ''R2'' = None
   \<and> currentRoom (sessions bob_joined ''B'') = Some ''R1''
   \<and> emitted (on_remark_add no_faults 1700 ''B'' ''R2'' ''check this'' 1 bob_joined) =
       [(Io_to ''R2'', RemarkUpdate
          \<lparr>remark_roomId = ''R2'', userName = Some ''bob'', role = Some ''Tester'',
           remark_text = ''check this'', line = 1, createdAt = 1700, resolved = False\<rparr>)]
   \<and> remarks (after (on_remark_add no_faults 1700 ''B'' ''R2'' ''check this'' 1 bob_joined)) =
       [\<lparr>remark_roomId = ''R2'', userName = Some ''bob'', role = Some ''Tester'',
         remark_text = ''check this'', line = 1, createdAt = 1700, resolved = False\<rparr>]"
  by (simp add: on_remark_add_def Let_def new_Remark_def bob_joined_session bob_joined_rooms
      bob_joined_remarks no_faults_def)

text \<open>
  C10, amended.  The three handlers act on the \<open>roomId\<close> of the payload.  With the
  store calls completing: an edit by an authorised role writes the Room of that
  \<open>roomId\<close> and no other and emits to that socket.io room without the sender, and is
  a no-op when no Room has that \<open>roomId\<close>; \<open>remark:add\<close> by a Tester stores a remark
  under that \<open>roomId\<close> and emits it to that socket.io room, whether or not a Room has
  it.  None of them reads \<open>currentRoom\<close>: run from a state that differs only in the
  \<open>currentRoom\<close> of the sender, each gives the same outcome and emissions and a state
  that differs in the same way.
\<close>

theorem payload_room_is_the_target:
  "(may_edit (sessions w s) \<longrightarrow> \<not> f FindOne \<longrightarrow> \<not> f SaveRoom \<longrightarrow> rooms w rid = Some rm \<longrightarrow>
      on_codeChange f s rid c w =
        \<lparr>outcome = Resolved, emitted = [(Socket_to s rid, CodeUpdate c)],
         after = w\<lparr>rooms := (rooms w)(rid \<mapsto> rm\<lparr>code := c\<rparr>)\<rparr>\<rparr>
      \<and> on_languageChange f s rid l w =
        \<lparr>outcome = Resolved, emitted = [(Socket_to s rid, LanguageUpdate l)],
         after = w\<lparr>rooms := (rooms w)(rid \<mapsto> rm\<lparr>language := l\<rparr>)\<rparr>\<rparr>)
   \<and> (\<not> f FindOne \<longrightarrow> rooms w rid = None \<longrightarrow>
      on_codeChange f s rid c w = \<lparr>outcome = Resolved, emitted = [], after = w\<rparr>
      \<and> on_languageChange f s rid l w = \<lparr>outcome = Resolved, emitted = [], after = w\<rparr>)
   \<and> (currentRole (sessions w s) = Some ''Tester'' \<longrightarrow> \<not> f SaveRemark \<longrightarrow>
      on_remark_add f now s rid msg ln w =
        \<lparr>outcome = Resolved,
         emitted = [(Io_to rid, RemarkUpdate
            (new_Remark now rid (currentUser (sessions w s)) (Some ''Tester'') msg ln))],
         after = w\<lparr>remarks := remarks w @
            [new_Remark now rid (currentUser (sessions w s)) (Some ''Tester'') msg ln]\<rparr>\<rparr>)
   \<and> on_codeChange f s rid c (rebind_room s x w) =
       (on_codeChange f s rid c w)
         \<lparr>after := rebind_room s x (after (on_codeChange f s rid c w))\<rparr>
   \<and> on_languageChange f s rid l (rebind_room s x w) =
       (on_languageChange f s rid l w)
         \<lparr>after := rebind_room s x (after (on_languageChange f s rid l w))\<rparr>
   \<and> on_remark_add f now s rid msg ln (rebind_room s x w) =
       (on_remark_add f now s rid msg ln w)
         \<lparr>after := rebind_room s x (after (on_remark_add f now s rid msg ln w))\<rparr>"
proof -
  have "may_edit (sessions w s) \<longrightarrow> \<not> f FindOne \<longrightarrow> \<not> f SaveRoom \<longrightarrow> rooms w rid = Some rm \<longrightarrow>
      on_codeChange f s rid c w =
        \<lparr>outcome = Resolved, emitted = [(Socket_to s rid, CodeUpdate c)],
         after = w\<lparr>rooms := (rooms w)(rid \<mapsto> rm\<lparr>code := c\<rparr>)\<rparr>\<rparr>
      \<and> on_languageChange f s rid l w =
        \<lparr>outcome = Resolved, emitted = [(Socket_to s rid, LanguageUpdate l)],
         after = w\<lparr>rooms := (rooms w)(rid \<mapsto> rm\<lparr>language := l\<rparr>)\<rparr>\<rparr>"
    by (simp add: codeChange_writes languageChange_writes)
  moreover have "\<not> f FindOne \<longrightarrow> rooms w rid = None \<longrightarrow>
      on_codeChange f s rid c w = \<lparr>outcome = Resolved, emitted = [], after = w\<rparr>
      \<and> on_languageChange f s rid l w = \<lparr>outcome = Resolved, emitted = [], after = w\<rparr>"
    by (simp add: on_codeChange_def on_languageChange_def)
  moreover have "currentRole (sessions w s) = Some ''Tester'' \<longrightarrow> \<not> f SaveRemark \<longrightarrow>
      on_remark_add f now s rid msg ln w =
        \<lparr>outcome = Resolved,
         emitted = [(Io_to rid, RemarkUpdate
            (new_Remark now rid (currentUser (sessions w s)) (Some ''Tester'') msg ln))],
         after = w\<lparr>remarks := remarks w @
            [new_Remark now rid (currentUser (sessions w s)) (Some ''Tester'') msg ln]\<rparr>\<rparr>"
    by (simp add: on_remark_add_def Let_def)
  ultimately show ?thesis
    using codeChange_rebind [of f s rid c x w] languageChange_rebind [of f s rid l x w]
      remark_add_rebind [of f now s rid msg ln x w]
    by blast
qed

theorem payload_room_is_the_target_witness:
  "currentRoom (sessions two_rooms ''A'') = Some ''R1''
   \<and> emitted (on_codeChange no_faults ''A'' ''R2'' ''print(1)'' two_rooms) =
       [(Socket_to ''A'' ''R2'', CodeUpdate ''print(1)'')]
   \<and> rooms (after (on_codeChange no_faults ''A'' ''R2'' ''print(1)'' two_rooms)) =
       [''R1'' \<mapsto> \<lparr>roomId = ''R1'', users = [''alice'', ''bob''], code = [],
                    language = ''javascript''\<rparr>,
        ''R2'' \<mapsto> \<lparr>roomId = ''R2'', users = [''dave''], code = ''print(1)'',
                    language = ''javascript''\<rparr>]
   \<and> receives two_rooms (Socket_to ''A'' ''R2'') ''D''
   \<and> receives two_rooms (Socket_to ''A'' ''R2'') ''B'' = False
   \<and> on_codeChange no_faults ''A'' ''R9'' ''print(1)'' two_rooms =
       \<lparr>outcome = Resolved, emitted = [], after = two_rooms\<rparr>"
proof -
  have e: "may_edit (sessions two_rooms ''A'')" by (simp add: may_edit_def two_rooms_state)
  have f: "\<not> no_faults FindOne" "\<not> no_faults SaveRoom" by (simp_all add: no_faults_def)
  have r: "rooms two_rooms ''R2'' =
     Some \<lparr>roomId = ''R2'', users = [''dave''], code = [], language = ''javascript''\<rparr>"
    by (simp add: two_rooms_state)
  have n: "rooms two_rooms ''R9'' = None" by (simp add: two_rooms_state)
  have c: "currentRoom (sessions two_rooms ''A'') = Some ''R1''" by (simp add: two_rooms_state)
  from payload_room_is_the_target [where w = two_rooms and s = "''A''" and f = no_faults
         and rid = "''R2''" and c = "''print(1)''"] e f r
  have 1: "on_codeChange no_faults ''A'' ''R2'' ''print(1)'' two_rooms =
        \<lparr>outcome = Resolved, emitted = [(Socket_to ''A'' ''R2'', CodeUpdate ''print(1)'')],
         after = two_rooms\<lparr>rooms := (rooms two_rooms)(''R2'' \<mapsto>
           \<lparr>roomId = ''R2'', users = [''dave''], code = [], language = ''javascript''\<rparr>
             \<lparr>code := ''print(1)''\<rparr>)\<rparr>\<rparr>"
    by blast
  from payload_room_is_the_target [where w = two_rooms and s = "''A''" and f = no_faults
         and rid = "''R9''" and c = "''print(1)''"] f n
  have 2: "on_codeChange no_faults ''A'' ''R9'' ''print(1)'' two_rooms =
       \<lparr>outcome = Resolved, emitted = [], after = two_rooms\<rparr>"
    by blast
  have 3: "rooms (after (on_codeChange no_faults ''A'' ''R2'' ''print(1)'' two_rooms)) =
       [''R1'' \<mapsto> \<lparr>roomId = ''R1'', users = [''alice'', ''bob''], code = [],
                    language = ''javascript''\<rparr>,
        ''R2'' \<mapsto> \<lparr>roomId = ''R2'', users = [''dave''], code = ''print(1)'',
                    language = ''javascript''\<rparr>]"
    by (simp add: 1 two_rooms_state)
  show ?thesis by (simp add: c 1 2 3 two_rooms_state del: fun_upd_apply)
qed


section \<open>Polling the execution service\<close>

lemma poll_loop_ends: "ends_loop (resp i) \<Longrightarrow> poll_loop resp i ms = Some (loop_end (resp i), ms)"
  by (subst poll_loop.simps) (auto split: poll.splits option.splits)

lemma poll_loop_continues:
  "\<not> ends_loop (resp i) \<Longrightarrow> poll_loop resp i ms = poll_loop resp (Suc i) (ms + 2000)"
  by (subst poll_loop.simps) (auto split: poll.splits option.splits)

lemma poll_loop_first_end:
  assumes "\<forall>j<d. \<not> ends_loop (resp (i + j))" and "ends_loop (resp (i + d))"
  shows "poll_loop resp i ms = Some (loop_end (resp (i + d)), ms + 2000 * d)"
  using assms
proof (induction d arbitrary: i ms)
  case 0
  then show ?case by (simp add: poll_loop_ends)
next
  case (Suc d)
  from Suc.prems(1) have here: "\<not> ends_loop (resp i)" by (metis add.right_neutral zero_less_Suc)
  have later: "\<forall>j<d. \<not> ends_loop (resp (Suc i + j))"
  proof (intro allI impI)
    fix j assume "j < d"
    then have "Suc j < Suc d" by simp
    with Suc.prems(1) have "\<not> ends_loop (resp (i + Suc j))" by blast
    then show "\<not> ends_loop (resp (Suc i + j))" by simp
  qed
  from Suc.prems(2) have last: "ends_loop (resp (Suc i + d))" by simp
  from Suc.IH [OF later last, of "ms + 2000"] here
  show ?case by (simp add: poll_loop_continues)
qed

lemma poll_loop_Some_ends:
  assumes "poll_loop resp i ms = Some v"
  shows "\<exists>j\<ge>i. ends_loop (resp j)"
  using assms
proof (induction rule: poll_loop.raw_induct [rotated 1, consumes 1])
  case (1 loop resp i ms v)
  show ?case
  proof (cases "ends_loop (resp i)")
    case True
    then show ?thesis by blast
  next
    case False
    with 1(2) have "loop resp (Suc i) (ms + 2000) = Some v"
      by (auto split: poll.splits option.splits if_splits)
    from 1(1) [OF this] obtain j where "Suc i \<le> j" "ends_loop (resp j)" by blast
    then show ?thesis by (metis Suc_leD)
  qed
qed

lemma poll_loop_never:
  assumes "\<forall>j. \<not> ends_loop (resp j)"
  shows "poll_loop resp i ms = None"
proof (cases "poll_loop resp i ms")
  case None
  then show ?thesis .
next
  case (Some v)
  from poll_loop_Some_ends [OF Some] assms show ?thesis by blast
qed

lemma compile_at_first_end:
  assumes "truthy token" and "\<forall>j<k. \<not> ends_loop (resp j)" and "ends_loop (resp k)"
  shows "compile dec (SubmitBody token err) resp =
           (case loop_end (resp k) of
              Inl e \<Rightarrow> Some (Json500 e, 2000 * k)
            | Inr result \<Rightarrow>
                (case reply dec result of
                   Inl e \<Rightarrow> Some (Json500 e, 2000 * k)
                 | Inr body \<Rightarrow> Some (Json200 body, 2000 * k)))"
proof -
  from assms(2,3) have "poll_loop resp 0 0 = Some (loop_end (resp (0 + k)), 0 + 2000 * k)"
    by (intro poll_loop_first_end) simp_all
  then show ?thesis using assms(1) by (simp add: compile_def split: sum.splits)
qed


text \<open>
  C9, as the specification has it: whenever some poll reports a status above 2, the handler
  answers with that result and no earlier response ends the loop.  Here the second
  poll is an accepted result, but the first is a body with no \<open>status\<close>: reading its
  \<open>status.id\<close> throws, the loop is left at once and the handler answers 500.
\<close>

theorem compile_stops_at_body_without_status:
  "polls_broken 1 = PollBody accepted
   \<and> status accepted = Some \<lparr>status_id = 3, description = ''Accepted''\<rparr>
   \<and> polls_broken 0 = PollBody no_status
   \<and> status no_status = None
   \<and> compile id (SubmitBody (Some ''tok'') None) polls_broken =
       Some (Json500 TypeError_status_undefined, 0)"
  by (simp add: compile_def polls_broken_def no_status_def accepted_def poll_loop.simps)

text \<open>
  C9, amended.  After a submission that returned a token: if the first \<open>k\<close> polls are
  bodies with a status id of at most 2, the loop makes exactly \<open>k + 1\<close> polls and
  sleeps 2000 ms after each of the first \<open>k\<close>; when the poll \<open>k\<close> has a status id
  above 2 the handler answers 200 with that result's output (decoded \<open>stdout\<close>, else
  decoded \<open>stderr\<close>, else "No output"), status description, memory and time; when it
  throws or has no \<open>status\<close> the handler answers 500.  If no poll ever does either,
  the handler never answers.  The threshold 2 and the interval 2000 are constants of
  the code.
\<close>

theorem compile_polls_until_loop_ends:
  assumes "truthy token"
  shows "((\<forall>j<k. \<not> ends_loop (resp j)) \<longrightarrow>
            (\<forall>result st. resp k = PollBody result \<longrightarrow> status result = Some st \<longrightarrow>
                2 < status_id st \<longrightarrow>
                compile dec (SubmitBody token err) resp =
                  Some (Json200
                     \<lparr>reply_output =
                        or_default (decoded dec (stdout result))
                          (or_default (decoded dec (stderr result)) ''No output''),
                      reply_status = description st,
                      reply_memory = memory result,
                      reply_time = time result\<rparr>, 2000 * k))
          \<and> (\<forall>m. resp k = PollThrows m \<longrightarrow>
                compile dec (SubmitBody token err) resp =
                  Some (Json500 (Rejection m), 2000 * k))
          \<and> (\<forall>result. resp k = PollBody result \<longrightarrow> status result = None \<longrightarrow>
                compile dec (SubmitBody token err) resp =
                  Some (Json500 TypeError_status_undefined, 2000 * k)))
       \<and> ((\<forall>j. \<not> ends_loop (resp j)) \<longrightarrow>
            compile dec (SubmitBody token err) resp = None)"
proof (intro conjI impI allI)
  fix result st
  assume a: "\<forall>j<k. \<not> ends_loop (resp j)" "resp k = PollBody result"
    "status result = Some st" "2 < status_id st"
  then have "ends_loop (resp k)" by simp
  from compile_at_first_end [OF assms a(1) this, of dec err] a(2,3)
  show "compile dec (SubmitBody token err) resp =
          Some (Json200
             \<lparr>reply_output =
                or_default (decoded dec (stdout result))
                  (or_default (decoded dec (stderr result)) ''No output''),
              reply_status = description st,
              reply_memory = memory result,
              reply_time = time result\<rparr>, 2000 * k)"
    by (simp add: reply_def Let_def)
next
  fix m
  assume a: "\<forall>j<k. \<not> ends_loop (resp j)" "resp k = PollThrows m"
  then have "ends_loop (resp k)" by simp
  from compile_at_first_end [OF assms a(1) this, of dec err] a(2)
  show "compile dec (SubmitBody token err) resp = Some (Json500 (Rejection m), 2000 * k)"
    by simp
next
  fix result
  assume a: "\<forall>j<k. \<not> ends_loop (resp j)" "resp k = PollBody result" "status result = None"
  then have "ends_loop (resp k)" by simp
  from compile_at_first_end [OF assms a(1) this, of dec err] a(2,3)
  show "compile dec (SubmitBody token err) resp =
          Some (Json500 TypeError_status_undefined, 2000 * k)"
    by simp
next
  assume "\<forall>j. \<not> ends_loop (resp j)"
  then have "poll_loop resp 0 0 = None" by (rule poll_loop_never)
  with assms show "compile dec (SubmitBody token err) resp = None"
    by (simp add: compile_def)
qed

theorem compile_polls_until_loop_ends_witness:
  "truthy (Some ''tok'')
   \<and> polls_ok 0 = PollBody in_queue \<and> polls_ok 1 = PollBody processing
   \<and> polls_ok 2 = PollBody accepted
   \<and> compile id (SubmitBody (Some ''tok'') None) polls_ok =
       Some (Json200 \<lparr>reply_output = ''aGk='', reply_status = ''Accepted'',
                      reply_memory = Some 3200, reply_time = Some ''0.01''\<rparr>, 4000)"
proof -
  have t: "truthy (Some ''tok'')" by simp
  have p: "polls_ok 0 = PollBody in_queue" "polls_ok 1 = PollBody processing"
    "polls_ok 2 = PollBody accepted"
    by (simp_all add: polls_ok_def)
  have q: "\<forall>j<2. \<not> ends_loop (polls_ok j)"
    by (simp add: polls_ok_def in_queue_def processing_def)
  have s: "status accepted = Some \<lparr>status_id = 3, description = ''Accepted''\<rparr>"
    by (simp add: accepted_def)
  from compile_polls_until_loop_ends [where token = "Some ''tok''" and k = 2
         and resp = polls_ok and dec = id and err = None] t q p(3) s
  have "compile id (SubmitBody (Some ''tok'') None) polls_ok =
          Some (Json200
             \<lparr>reply_output =
                or_default (decoded id (stdout accepted))
                  (or_default (decoded id (stderr accepted)) ''No output''),
              reply_status = description \<lparr>status_id = 3, description = ''Accepted''\<rparr>,
              reply_memory = memory accepted,
              reply_time = time accepted\<rparr>, 2000 * 2)"
    by simp
  then show ?thesis using t p by (simp add: accepted_def)
qed


end
